theory Spec2Isabelle
  imports Complex_Main "HOL-Library.Multiset" "HOL-Library.Product_Lexorder"
begin

section \<open>Course allotment: a shallow embedding of algo.py\<close>

text \<open>
  The module \<^verbatim>\<open>algo.py\<close> expands course requirements into sections, prices every
  (faculty, section) pair, builds the cost matrix and hands it to an assignment solver.
  Python numbers (\<^verbatim>\<open>int\<close> and \<^verbatim>\<open>float\<close>) are modelled as exact reals: rounding of
  floating-point arithmetic is not modelled. Exceptions are values of type \<open>py_error\<close>,
  returned on the left of a sum.
\<close>

subsection \<open>Values, errors and records\<close>

text \<open>
  A course requirement is a Python dictionary with string keys. Its values are dynamically
  typed; the model has integers, strings and \<^verbatim>\<open>None\<close>. An expanded section is such
  a dictionary too. A faculty record and the two configurations are dictionaries whose keys
  are all present and whose numbers are numbers: they are records here, with the
  preferences and the history as maps from course codes.
\<close>

datatype pyval = PInt int | PStr string | PNone

text \<open>
  \<open>KeyError\<close>, \<open>TypeError\<close>, \<open>ValueError\<close> and \<open>IndexError\<close> are the built-in
  exceptions the code can raise. \<open>InvalidInputError\<close> and \<open>InvalidMatrixError\<close> are the
  error kinds named by the specification; no statement of \<^verbatim>\<open>algo.py\<close> constructs them.
\<close>

datatype py_error =
  KeyError | TypeError | ValueError | IndexError | InvalidInputError | InvalidMatrixError

type_synonym course = "string \<rightharpoonup> pyval"

record faculty =
  name :: string
  preferences :: "pyval \<rightharpoonup> real"
  courses_left :: real
  ug_left :: real
  current_semester_ug :: real
  current_semester_pg :: real
  history :: "pyval \<rightharpoonup> real"
  timestamp :: real

record weights =
  w_overall :: real
  w_ug :: real
  w_history :: real
  w_timestamp :: real

record limits =
  max_courses :: real
  max_ug :: real
  ug_semester :: real
  pg_semester :: real

subsection \<open>String formatting\<close>

text \<open>\<^verbatim>\<open>str(n)\<close> for a Python integer, as used by the f-string of \<^verbatim>\<open>expand_courses\<close>.\<close>

definition digit_char :: "nat \<Rightarrow> char" where
  "digit_char d = ''0123456789'' ! d"

function str_nat :: "nat \<Rightarrow> string" where
  "str_nat n = (if n < 10 then [digit_char n] else str_nat (n div 10) @ [digit_char (n mod 10)])"
  by pat_completeness auto
termination
  by (relation "measure id") auto

declare str_nat.simps [simp del]

definition str_int :: "int \<Rightarrow> string" where
  "str_int i = (if i < 0 then CHR ''-'' # str_nat (nat (- i)) else str_nat (nat i))"

fun py_str :: "pyval \<Rightarrow> string" where
  "py_str (PStr s) = s"
| "py_str (PInt i) = str_int i"
| "py_str PNone = ''None''"

subsection \<open>compute\_cost\<close>

definition compute_cost :: "faculty \<Rightarrow> course \<Rightarrow> weights \<Rightarrow> limits \<Rightarrow> py_error + real" where
  "compute_cost fac crs wts lims =
     (case crs ''course_code'' of
        None \<Rightarrow> Inl KeyError
      | Some course_code \<Rightarrow>
          (let pref = preferences fac course_code;
               pref_cost = (case pref of
                   None \<Rightarrow> 100
                 | Some p \<Rightarrow> if p = 1 then 0 else if p = 2 then 10 else if p = 3 then 20 else 30);
               overall_penalty = w_overall wts * (max_courses lims - courses_left fac)
           in case crs ''type'' of
                None \<Rightarrow> Inl KeyError
              | Some ty \<Rightarrow>
                  (let ug_penalty =
                         (if ty = PStr ''UG'' then w_ug wts * (max_ug lims - ug_left fac) else 0);
                       workload_cost = overall_penalty + ug_penalty;
                       semester_cost =
                         (if ty = PStr ''UG''
                          then (if current_semester_ug fac \<ge> ug_semester lims then 0 + 1000 else 0)
                          else if ty = PStr ''PG''
                          then (if current_semester_pg fac \<ge> pg_semester lims then 0 + 1000 else 0)
                          else 0);
                       history_cost =
                         w_history wts * (case history fac course_code of None \<Rightarrow> 0 | Some h \<Rightarrow> h);
                       timestamp_cost =
                         (if ty = PStr ''UG'' then w_timestamp wts * timestamp fac
                          else if ty = PStr ''PG'' then w_timestamp wts * (1 - timestamp fac)
                          else 0)
                   in Inr (pref_cost + workload_cost + semester_cost + history_cost
                           + timestamp_cost))))"

subsection \<open>expand\_courses\<close>

definition section_entry :: "course \<Rightarrow> pyval \<Rightarrow> int \<Rightarrow> course" where
  "section_entry crs original_code sec =
     crs(''course_code'' \<mapsto> original_code,
         ''code'' \<mapsto> PStr (py_str original_code @ ''-S'' @ str_int sec),
         ''section'' \<mapsto> PInt sec)"

text \<open>
  The outer loop of \<^verbatim>\<open>expand_courses\<close>, with the list \<^verbatim>\<open>expanded\<close> as accumulator.
  \<^verbatim>\<open>course['code']\<close> raises \<open>KeyError\<close> when the key is missing; \<^verbatim>\<open>num_sections + 1\<close>
  and \<^verbatim>\<open>range\<close> raise \<open>TypeError\<close> when \<^verbatim>\<open>num_sections\<close> is not an integer. The inner
  loop runs over \<^verbatim>\<open>range(1, num_sections + 1)\<close>, which is empty when \<^verbatim>\<open>num_sections < 1\<close>.
\<close>

fun expand_loop :: "course list \<Rightarrow> course list \<Rightarrow> py_error + course list" where
  "expand_loop [] expanded = Inr expanded"
| "expand_loop (crs # rest) expanded =
     (let num_sections = (case crs ''sections'' of None \<Rightarrow> PInt 1 | Some v \<Rightarrow> v)
      in case crs ''code'' of
           None \<Rightarrow> Inl KeyError
         | Some original_code \<Rightarrow>
             (case num_sections of
                PInt n \<Rightarrow>
                  expand_loop rest
                    (fold (\<lambda>sec acc. acc @ [section_entry crs original_code sec]) [1..n] expanded)
              | _ \<Rightarrow> Inl TypeError))"

definition expand_courses :: "course list \<Rightarrow> py_error + course list" where
  "expand_courses courses = expand_loop courses []"

subsection \<open>build\_cost\_matrix\<close>

text \<open>
  The cost matrix is a numpy array of 64-bit floats with an explicit shape: a matrix with
  no rows still knows its number of columns. A cell is a finite number, an infinity or a
  NaN; arithmetic on finite cells is exact in the model.
\<close>

datatype float64 = Finite real | PosInf | NegInf | NaN

record cost_matrix =
  nrows :: nat
  ncols :: nat
  cells :: "float64 list list"

definition entry :: "cost_matrix \<Rightarrow> nat \<Rightarrow> nat \<Rightarrow> float64" where
  "entry M i j = cells M ! i ! j"

text \<open>The inner loop over the sections and the outer loop over the faculty, row-major.\<close>

fun build_row :: "faculty \<Rightarrow> course list \<Rightarrow> weights \<Rightarrow> limits \<Rightarrow> py_error + float64 list" where
  "build_row fac [] wts lims = Inr []"
| "build_row fac (crs # rest) wts lims =
     (case compute_cost fac crs wts lims of
        Inl e \<Rightarrow> Inl e
      | Inr c \<Rightarrow>
          (case build_row fac rest wts lims of
             Inl e \<Rightarrow> Inl e
           | Inr row \<Rightarrow> Inr (Finite c # row)))"

fun build_rows ::
  "faculty list \<Rightarrow> course list \<Rightarrow> weights \<Rightarrow> limits \<Rightarrow> py_error + float64 list list" where
  "build_rows [] expanded wts lims = Inr []"
| "build_rows (fac # rest) expanded wts lims =
     (case build_row fac expanded wts lims of
        Inl e \<Rightarrow> Inl e
      | Inr row \<Rightarrow>
          (case build_rows rest expanded wts lims of
             Inl e \<Rightarrow> Inl e
           | Inr rows \<Rightarrow> Inr (row # rows)))"

definition build_cost_matrix ::
  "faculty list \<Rightarrow> course list \<Rightarrow> weights \<Rightarrow> limits \<Rightarrow> py_error + cost_matrix" where
  "build_cost_matrix faculties expanded_courses wts lims =
     (let num_faculties = length faculties;
          num_sections = length expanded_courses
      in case build_rows faculties expanded_courses wts lims of
           Inl e \<Rightarrow> Inl e
         | Inr rows \<Rightarrow> Inr \<lparr>nrows = num_faculties, ncols = num_sections, cells = rows\<rparr>)"

subsection \<open>allocate\_courses\<close>

text \<open>
  \<^verbatim>\<open>linear_sum_assignment\<close> is a routine of the scipy library, not of this repository.
  The allocator is therefore parametrised over it: a solver takes the cost matrix and
  either raises or returns the two index arrays \<^verbatim>\<open>row_ind\<close> and \<^verbatim>\<open>col_ind\<close>.
\<close>

type_synonym solver = "cost_matrix \<Rightarrow> py_error + (nat list \<times> nat list)"

text \<open>
  \<^verbatim>\<open>list(total_sections - assigned_sections)\<close> enumerates a set; the model lists it in
  ascending order. Nothing below depends on that order.
\<close>

definition allocate_courses ::
  "solver \<Rightarrow> cost_matrix \<Rightarrow> py_error + ((nat \<times> nat) list \<times> nat list)" where
  "allocate_courses lsa cost_matrix =
     (case lsa cost_matrix of
        Inl e \<Rightarrow> Inl e
      | Inr (row_ind, col_ind) \<Rightarrow>
          (let allocation = zip row_ind col_ind;
               assigned_sections = set col_ind;
               total_sections = set [0..<ncols cost_matrix];
               unassigned = sorted_list_of_set (total_sections - assigned_sections)
           in Inr (allocation, unassigned)))"

subsection \<open>run\_allotment\<close>

text \<open>
  The function prints the cost matrix and returns the allocation dictionary and the list
  of unallotted section labels. The model returns the printed matrix with them (numpy's
  textual rendering is not modelled). Indexing a list out of range raises \<open>IndexError\<close>.
\<close>

record allotment =
  printed_cost_matrix :: cost_matrix
  allocations :: "string \<rightharpoonup> pyval"
  unallotted_sections :: "pyval list"

fun allocations_loop ::
  "faculty list \<Rightarrow> course list \<Rightarrow> (nat \<times> nat) list \<Rightarrow> (string \<rightharpoonup> pyval)
     \<Rightarrow> py_error + (string \<rightharpoonup> pyval)" where
  "allocations_loop faculties expanded_courses [] allocs = Inr allocs"
| "allocations_loop faculties expanded_courses ((faculty_idx, section_idx) # rest) allocs =
     (if faculty_idx \<ge> length faculties then Inl IndexError
      else let faculty_name = name (faculties ! faculty_idx)
           in if section_idx \<ge> length expanded_courses then Inl IndexError
              else case (expanded_courses ! section_idx) ''code'' of
                     None \<Rightarrow> Inl KeyError
                   | Some section_code \<Rightarrow>
                       allocations_loop faculties expanded_courses rest
                         (allocs(faculty_name \<mapsto> section_code)))"

fun unallotted_loop :: "course list \<Rightarrow> nat list \<Rightarrow> pyval list \<Rightarrow> py_error + pyval list" where
  "unallotted_loop expanded_courses [] unallotted = Inr unallotted"
| "unallotted_loop expanded_courses (section_idx # rest) unallotted =
     (if section_idx \<ge> length expanded_courses then Inl IndexError
      else case (expanded_courses ! section_idx) ''code'' of
             None \<Rightarrow> Inl KeyError
           | Some section_code \<Rightarrow>
               unallotted_loop expanded_courses rest (unallotted @ [section_code]))"

definition run_allotment :: "solver \<Rightarrow> faculty list \<Rightarrow> course list \<Rightarrow> py_error + allotment" where
  "run_allotment lsa faculties courses =
     (case expand_courses courses of
        Inl e \<Rightarrow> Inl e
      | Inr expanded_courses \<Rightarrow>
          (let wts = \<lparr>w_overall = 1, w_ug = 1, w_history = 5, w_timestamp = 10\<rparr>;
               lims = \<lparr>max_courses = 5, max_ug = 2, ug_semester = 1, pg_semester = 2\<rparr>
           in case build_cost_matrix faculties expanded_courses wts lims of
                Inl e \<Rightarrow> Inl e
              | Inr cost_matrix \<Rightarrow>
                  (case allocate_courses lsa cost_matrix of
                     Inl e \<Rightarrow> Inl e
                   | Inr (allocation, unassigned) \<Rightarrow>
                       (case allocations_loop faculties expanded_courses allocation Map.empty of
                          Inl e \<Rightarrow> Inl e
                        | Inr allocs \<Rightarrow>
                            (case unallotted_loop expanded_courses unassigned [] of
                               Inl e \<Rightarrow> Inl e
                             | Inr unallotted \<Rightarrow>
                                 Inr \<lparr>printed_cost_matrix = cost_matrix,
                                      allocations = allocs,
                                      unallotted_sections = unallotted\<rparr>)))))"

subsection \<open>The assignment solver\<close>

text \<open>
  Modelled from the spec: the cells that \<^verbatim>\<open>linear_sum_assignment\<close> rejects. The library
  refuses a matrix with a NaN or a negative infinity; positive infinity marks a forbidden
  pair.
\<close>

fun invalid_cell :: "float64 \<Rightarrow> bool" where
  "invalid_cell NaN = True"
| "invalid_cell NegInf = True"
| "invalid_cell _ = False"

text \<open>
  Modelled from the spec: the total cost of an assignment, given as the two index arrays.
  A cell counts as (number of infinities, finite part), and costs compare
  lexicographically, so that an assignment through a forbidden pair costs more than any
  assignment without one.
\<close>

fun weigh :: "float64 \<Rightarrow> nat \<times> real" where
  "weigh (Finite x) = (0, x)"
| "weigh PosInf = (1, 0)"
| "weigh _ = (0, 0)"

definition assignment_cost :: "cost_matrix \<Rightarrow> nat list \<times> nat list \<Rightarrow> nat \<times> real" where
  "assignment_cost M a =
     (sum_list (map (\<lambda>(i, j). fst (weigh (entry M i j))) (zip (fst a) (snd a))),
      sum_list (map (\<lambda>(i, j). snd (weigh (entry M i j))) (zip (fst a) (snd a))))"

text \<open>
  Modelled from the spec: the matchings among which the solver chooses. Each uses every
  row and every column at most once and covers \<open>min F S\<close> pairs; the row indices are in
  ascending order, as the library returns them.
\<close>

definition candidates :: "cost_matrix \<Rightarrow> (nat list \<times> nat list) list" where
  "candidates M =
     (let k = min (nrows M) (ncols M)
      in List.product (filter (sorted_wrt (<)) (List.n_lists k [0..<nrows M]))
                      (filter distinct (List.n_lists k [0..<ncols M])))"

text \<open>
  Modelled from the spec: \<^verbatim>\<open>scipy.optimize.linear_sum_assignment\<close>, the library routine
  that \<^verbatim>\<open>allocate_courses\<close> calls; its code is not part of the repository. The
  specification asks for a matching of minimum total cost that uses each row and each
  column at most once and covers \<open>min F S\<close> pairs, ties broken by index order. The model
  searches all such matchings and keeps the first of minimum cost. As the library does, it
  raises \<open>ValueError\<close> when a cell is NaN or negative infinity, and when every matching
  goes through a cell that is positive infinity.
\<close>

definition linear_sum_assignment :: solver where
  "linear_sum_assignment M =
     (if list_ex (\<lambda>i. list_ex (\<lambda>j. invalid_cell (entry M i j)) [0..<ncols M]) [0..<nrows M]
      then Inl ValueError
      else let best = arg_min_list (assignment_cost M) (candidates M)
           in if fst (assignment_cost M best) > 0 then Inl ValueError else Inr best)"

section \<open>Specification-side definitions\<close>

text \<open>
  The definitions of this section follow the words of the specification; the theorems
  below compare them with the embedding of the code.
\<close>

subsection \<open>The five cost components\<close>

definition preference_cost :: "faculty \<Rightarrow> pyval \<Rightarrow> real" where
  "preference_cost fac code =
     (case preferences fac code of
        None \<Rightarrow> 100
      | Some rank \<Rightarrow> if rank = 1 then 0 else if rank = 2 then 10 else if rank = 3 then 20 else 30)"

definition workload_cost :: "faculty \<Rightarrow> pyval \<Rightarrow> weights \<Rightarrow> limits \<Rightarrow> real" where
  "workload_cost fac ty wts lims =
     w_overall wts * (max_courses lims - courses_left fac)
     + (if ty = PStr ''UG'' then w_ug wts * (max_ug lims - ug_left fac) else 0)"

definition semester_penalty :: "faculty \<Rightarrow> pyval \<Rightarrow> limits \<Rightarrow> real" where
  "semester_penalty fac ty lims =
     (if (ty = PStr ''UG'' \<and> current_semester_ug fac \<ge> ug_semester lims)
         \<or> (ty = PStr ''PG'' \<and> current_semester_pg fac \<ge> pg_semester lims)
      then 1000 else 0)"

definition history_cost :: "faculty \<Rightarrow> pyval \<Rightarrow> weights \<Rightarrow> real" where
  "history_cost fac code wts =
     w_history wts * (case history fac code of None \<Rightarrow> 0 | Some h \<Rightarrow> h)"

definition timestamp_cost :: "faculty \<Rightarrow> pyval \<Rightarrow> weights \<Rightarrow> real" where
  "timestamp_cost fac ty wts =
     (if ty = PStr ''UG'' then w_timestamp wts * timestamp fac
      else if ty = PStr ''PG'' then w_timestamp wts * (1 - timestamp fac)
      else 0)"

definition default_weights :: weights where
  "default_weights = \<lparr>w_overall = 1, w_ug = 1, w_history = 5, w_timestamp = 10\<rparr>"

definition default_limits :: limits where
  "default_limits = \<lparr>max_courses = 5, max_ug = 2, ug_semester = 1, pg_semester = 2\<rparr>"

text \<open>The constraints of the data model on a faculty record.\<close>

definition faculty_in_data_model :: "faculty \<Rightarrow> bool" where
  "faculty_in_data_model fac =
     (0 \<le> courses_left fac \<and> 0 \<le> ug_left fac
      \<and> 0 \<le> current_semester_ug fac \<and> 0 \<le> current_semester_pg fac
      \<and> 0 \<le> timestamp fac \<and> timestamp fac \<le> 1
      \<and> (\<forall>code h. history fac code = Some h \<longrightarrow> 0 \<le> h)
      \<and> (\<forall>code rank. preferences fac code = Some rank \<longrightarrow> 0 < rank))"

subsection \<open>Expansion\<close>

definition sections_value :: "course \<Rightarrow> int" where
  "sections_value crs =
     (case crs ''sections'' of None \<Rightarrow> 1 | Some (PInt n) \<Rightarrow> n | Some _ \<Rightarrow> 0)"

definition requirement_sections :: "course \<Rightarrow> course list" where
  "requirement_sections crs =
     (case crs ''code'' of
        None \<Rightarrow> []
      | Some code \<Rightarrow>
          map (\<lambda>i. crs(''course_code'' \<mapsto> code,
                       ''code'' \<mapsto> PStr (py_str code @ ''-S'' @ str_int i),
                       ''section'' \<mapsto> PInt i))
              [1..sections_value crs])"

definition int_sections :: "course \<Rightarrow> bool" where
  "int_sections crs =
     (case crs ''sections'' of None \<Rightarrow> True | Some (PInt n) \<Rightarrow> True | Some _ \<Rightarrow> False)"

definition expandable :: "course \<Rightarrow> bool" where
  "expandable crs = (crs ''code'' \<noteq> None \<and> int_sections crs)"

subsection \<open>Matchings\<close>

definition real_matrix :: "cost_matrix \<Rightarrow> bool" where
  "real_matrix M =
     list_all (\<lambda>i. list_all (\<lambda>j. case entry M i j of Finite x \<Rightarrow> True | _ \<Rightarrow> False)
                             [0..<ncols M]) [0..<nrows M]"

fun real_of_cell :: "float64 \<Rightarrow> real" where
  "real_of_cell (Finite x) = x"
| "real_of_cell _ = 0"

definition total_cost :: "cost_matrix \<Rightarrow> (nat \<times> nat) list \<Rightarrow> real" where
  "total_cost M m = sum_list (map (\<lambda>(i, j). real_of_cell (entry M i j)) m)"

definition is_matching :: "cost_matrix \<Rightarrow> (nat \<times> nat) list \<Rightarrow> bool" where
  "is_matching M m =
     (distinct (map fst m) \<and> distinct (map snd m)
      \<and> list_all (\<lambda>(i, j). i < nrows M \<and> j < ncols M) m
      \<and> length m = min (nrows M) (ncols M))"

subsection \<open>Example data\<close>

definition faculty_A :: faculty where
  "faculty_A = \<lparr>name = ''A'', preferences = [PStr ''C1'' \<mapsto> 2], courses_left = 3, ug_left = 1,
                 current_semester_ug = 1, current_semester_pg = 0,
                 history = [PStr ''C1'' \<mapsto> 2], timestamp = 1 / 2\<rparr>"

definition faculty_B :: faculty where
  "faculty_B = \<lparr>name = ''B'', preferences = [PStr ''C1'' \<mapsto> 1], courses_left = 1000, ug_left = 0,
                 current_semester_ug = 0, current_semester_pg = 0,
                 history = Map.empty, timestamp = 1\<rparr>"

definition section_C1_S1 :: course where
  "section_C1_S1 = [''code'' \<mapsto> PStr ''C1-S1'', ''type'' \<mapsto> PStr ''UG'', ''sections'' \<mapsto> PInt 2,
                    ''course_code'' \<mapsto> PStr ''C1'', ''section'' \<mapsto> PInt 1]"

definition section_P1_S1 :: course where
  "section_P1_S1 = [''code'' \<mapsto> PStr ''C1-S1'', ''type'' \<mapsto> PStr ''PG'',
                    ''course_code'' \<mapsto> PStr ''C1'', ''section'' \<mapsto> PInt 1]"

definition course_A :: course where
  "course_A = [''code'' \<mapsto> PStr ''C1'', ''type'' \<mapsto> PStr ''UG'', ''sections'' \<mapsto> PInt 2]"

definition course_B :: course where
  "course_B = [''code'' \<mapsto> PStr ''C2'', ''type'' \<mapsto> PStr ''PG'']"

definition course_zero :: course where
  "course_zero = [''code'' \<mapsto> PStr ''C3'', ''type'' \<mapsto> PStr ''UG'', ''sections'' \<mapsto> PInt 0]"

definition course_nocode :: course where
  "course_nocode = [''type'' \<mapsto> PStr ''UG'', ''sections'' \<mapsto> PInt 1]"

definition course_str :: course where
  "course_str = [''code'' \<mapsto> PStr ''C4'', ''sections'' \<mapsto> PStr ''2'']"

definition custom_weights :: weights where
  "custom_weights = \<lparr>w_overall = 2, w_ug = 1, w_history = 5, w_timestamp = 10\<rparr>"

definition M23 :: cost_matrix where
  "M23 = \<lparr>nrows = 2, ncols = 3,
          cells = [[Finite 4, Finite 1, Finite 3], [Finite 2, Finite 1, Finite 5]]\<rparr>"

definition M_nan :: cost_matrix where
  "M_nan = \<lparr>nrows = 1, ncols = 1, cells = [[NaN]]\<rparr>"

definition M_inf :: cost_matrix where
  "M_inf = \<lparr>nrows = 1, ncols = 2, cells = [[PosInf, Finite 1]]\<rparr>"

section \<open>Lemmas about the embedding\<close>

subsection \<open>The expansion loop\<close>

lemma fold_append_map: "fold (\<lambda>x acc. acc @ [f x]) xs acc = acc @ map f xs"
  by (induction xs arbitrary: acc) auto

lemma expandable_cases:
  assumes "expandable crs"
  obtains code where "crs ''code'' = Some code" and "crs ''sections'' = None"
  | code n where "crs ''code'' = Some code" and "crs ''sections'' = Some (PInt n)"
  using assms
  by (auto simp: expandable_def int_sections_def split: option.splits pyval.splits)

lemma expand_loop_step:
  assumes "expandable crs"
  shows "expand_loop (crs # cs) acc = expand_loop cs (acc @ requirement_sections crs)"
  using assms
  by (elim expandable_cases)
     (simp_all add: fold_append_map requirement_sections_def sections_value_def section_entry_def)

lemma expand_loop_expandable:
  "\<forall>crs\<in>set cs. expandable crs \<Longrightarrow>
     expand_loop cs acc = Inr (acc @ concat (map requirement_sections cs))"
  by (induction cs arbitrary: acc) (simp_all add: expand_loop_step del: expand_loop.simps(2))

lemma expand_loop_not_expandable:
  "\<not> expandable crs \<Longrightarrow>
     expand_loop (crs # cs) acc = Inl (if crs ''code'' = None then KeyError else TypeError)"
  by (auto simp: expandable_def int_sections_def Let_def split: option.splits pyval.splits)

lemma expand_loop_error_kind:
  "expand_loop cs acc = Inl e \<Longrightarrow> e = KeyError \<or> e = TypeError"
proof (induction cs arbitrary: acc)
  case Nil
  then show ?case by simp
next
  case (Cons crs cs)
  show ?case
  proof (cases "expandable crs")
    case True
    with Cons show ?thesis by (simp add: expand_loop_step del: expand_loop.simps(2))
  next
    case False
    from expand_loop_not_expandable [OF False, of cs acc] Cons.prems
    show ?thesis by (auto split: if_splits)
  qed
qed

lemma expand_loop_error_iff:
  "(\<exists>e. expand_loop cs acc = Inl e) \<longleftrightarrow> (\<exists>crs\<in>set cs. \<not> expandable crs)"
proof (induction cs arbitrary: acc)
  case Nil
  then show ?case by simp
next
  case (Cons crs cs)
  show ?case
  proof (cases "expandable crs")
    case True
    with Cons.IH [of "acc @ requirement_sections crs"] show ?thesis
      by (simp add: expand_loop_step del: expand_loop.simps(2))
  next
    case False
    with expand_loop_not_expandable [OF False, of cs acc] show ?thesis by auto
  qed
qed

lemma expand_loop_append:
  "\<forall>crs\<in>set cs. expandable crs \<Longrightarrow>
     expand_loop (cs @ ds) acc = expand_loop ds (acc @ concat (map requirement_sections cs))"
  by (induction cs arbitrary: acc) (simp_all add: expand_loop_step del: expand_loop.simps(2))

lemma length_requirement_sections:
  "crs ''code'' \<noteq> None \<Longrightarrow> length (requirement_sections crs) = nat (sections_value crs)"
  by (auto simp: requirement_sections_def)

lemma length_concat_requirement_sections:
  "\<forall>crs\<in>set cs. crs ''code'' \<noteq> None \<Longrightarrow>
     length (concat (map requirement_sections cs)) = (\<Sum>crs\<leftarrow>cs. nat (sections_value crs))"
  by (induction cs) (simp_all add: length_requirement_sections)

lemma nth_requirement_sections:
  assumes "crs ''code'' = Some code" and "k < nat (sections_value crs)"
  shows "requirement_sections crs ! k =
           crs(''course_code'' \<mapsto> code,
               ''code'' \<mapsto> PStr (py_str code @ ''-S'' @ str_int (int k + 1)),
               ''section'' \<mapsto> PInt (int k + 1))"
  using assms by (simp add: requirement_sections_def add.commute)

lemma int_sum_list_nat:
  "\<forall>x\<in>set xs. 0 \<le> f x \<Longrightarrow> int (\<Sum>x\<leftarrow>xs. nat (f x)) = (\<Sum>x\<leftarrow>xs. f x)"
  by (induction xs) simp_all

lemma requirement_literal_expandable:
  "crs ''code'' \<noteq> None \<and> (\<forall>v. crs ''sections'' = Some v \<longrightarrow> (\<exists>n. v = PInt n))
     \<Longrightarrow> expandable crs"
  by (auto simp: expandable_def int_sections_def split: option.splits pyval.splits)

lemma requirement_sections_nonpositive:
  assumes "crs ''sections'' = Some (PInt n)" and "n \<le> 0"
  shows "requirement_sections crs = []"
proof (cases "crs ''code''")
  case None
  then show ?thesis by (simp add: requirement_sections_def)
next
  case (Some code)
  from assms have "[1..sections_value crs] = []"
    by (simp add: sections_value_def)
  with Some show ?thesis by (simp add: requirement_sections_def)
qed

lemma expand_loop_skip:
  assumes b: "\<forall>crs\<in>set before. expandable crs"
    and s: "expandable skipped"
    and e: "requirement_sections skipped = []"
  shows "expand_loop (before @ skipped # after) acc = expand_loop (before @ after) acc"
proof -
  have "expand_loop (before @ skipped # after) acc
          = expand_loop (skipped # after) (acc @ concat (map requirement_sections before))"
    by (rule expand_loop_append [OF b])
  also have "\<dots> = expand_loop after (acc @ concat (map requirement_sections before))"
    using expand_loop_step [OF s, of after "acc @ concat (map requirement_sections before)"] e
    by (simp del: expand_loop.simps)
  also have "\<dots> = expand_loop (before @ after) acc"
    by (rule expand_loop_append [OF b, symmetric])
  finally show ?thesis .
qed

lemma expand_loop_first_offender:
  assumes b: "\<forall>c\<in>set before. expandable c" and n: "\<not> expandable crs"
  shows "expand_loop (before @ crs # after) acc
           = Inl (if crs ''code'' = None then KeyError else TypeError)"
  by (simp only: expand_loop_append [OF b] expand_loop_not_expandable [OF n])

lemma str_int_1: "str_int 1 = ''1''" and str_int_2: "str_int 2 = ''2''"
  by (simp_all add: str_int_def str_nat.simps digit_char_def)

subsection \<open>The cost function\<close>

lemma compute_cost_parts:
  assumes "crs ''course_code'' = Some code" and "crs ''type'' = Some ty"
  shows "compute_cost fac crs wts lims =
           Inr (preference_cost fac code + workload_cost fac ty wts lims
                + semester_penalty fac ty lims + history_cost fac code wts
                + timestamp_cost fac ty wts)"
  using assms
  by (simp add: compute_cost_def preference_cost_def workload_cost_def semester_penalty_def
        history_cost_def timestamp_cost_def Let_def)

subsection \<open>The assignment solver\<close>

lemma set_candidates:
  "set (candidates M) =
     {(rs, cs). length rs = min (nrows M) (ncols M) \<and> set rs \<subseteq> {0..<nrows M} \<and> sorted_wrt (<) rs
              \<and> length cs = min (nrows M) (ncols M) \<and> set cs \<subseteq> {0..<ncols M} \<and> distinct cs}"
  by (auto simp: candidates_def Let_def set_n_lists)

lemma candidates_nonempty: "candidates M \<noteq> []"
proof -
  have "([0..<min (nrows M) (ncols M)], [0..<min (nrows M) (ncols M)]) \<in> set (candidates M)"
    by (auto simp: set_candidates)
  then show ?thesis by auto
qed

lemma real_matrix_entry:
  assumes "real_matrix M" and "i < nrows M" and "j < ncols M"
  shows "\<exists>x. entry M i j = Finite x"
proof -
  from assms have "case entry M i j of Finite x \<Rightarrow> True | _ \<Rightarrow> False"
    by (simp add: real_matrix_def list_all_iff)
  then show ?thesis by (cases "entry M i j") simp_all
qed

lemma real_matrix_no_invalid:
  assumes "real_matrix M"
  shows "\<not> list_ex (\<lambda>i. list_ex (\<lambda>j. invalid_cell (entry M i j)) [0..<ncols M]) [0..<nrows M]"
  using real_matrix_entry [OF assms] by (fastforce simp: list_ex_iff)

lemma assignment_cost_real:
  assumes "real_matrix M" and "set rs \<subseteq> {0..<nrows M}" and "set cs \<subseteq> {0..<ncols M}"
  shows "assignment_cost M (rs, cs) = (0, total_cost M (zip rs cs))"
proof -
  have "\<And>i j. (i, j) \<in> set (zip rs cs) \<Longrightarrow> weigh (entry M i j) = (0, real_of_cell (entry M i j))"
  proof -
    fix i j assume "(i, j) \<in> set (zip rs cs)"
    then have "i \<in> set rs" and "j \<in> set cs" by (auto dest: set_zip_leftD set_zip_rightD)
    with assms(2,3) have "i < nrows M" and "j < ncols M" by auto
    from real_matrix_entry [OF assms(1) this] show "weigh (entry M i j) = (0, real_of_cell (entry M i j))"
      by auto
  qed
  then have a: "map (\<lambda>(i, j). fst (weigh (entry M i j))) (zip rs cs) = map (\<lambda>_. 0) (zip rs cs)"
    and b: "map (\<lambda>(i, j). snd (weigh (entry M i j))) (zip rs cs)
            = map (\<lambda>(i, j). real_of_cell (entry M i j)) (zip rs cs)"
    by auto
  show ?thesis
    by (simp add: assignment_cost_def total_cost_def a b)
qed

lemma linear_sum_assignment_Inr:
  assumes "linear_sum_assignment M = Inr a"
  shows "a \<in> set (candidates M)" and "\<forall>b\<in>set (candidates M). assignment_cost M a \<le> assignment_cost M b"
proof -
  from assms have a: "a = arg_min_list (assignment_cost M) (candidates M)"
    by (auto simp: linear_sum_assignment_def Let_def split: if_splits)
  show "a \<in> set (candidates M)"
    unfolding a by (rule arg_min_list_in [OF candidates_nonempty])
  show "\<forall>b\<in>set (candidates M). assignment_cost M a \<le> assignment_cost M b"
    unfolding a by (simp add: f_arg_min_list_f [OF candidates_nonempty])
qed

lemma linear_sum_assignment_error:
  "linear_sum_assignment M = Inl e \<Longrightarrow> e = ValueError"
  by (auto simp: linear_sum_assignment_def Let_def split: if_splits)

lemma linear_sum_assignment_real:
  assumes "real_matrix M"
  shows "\<exists>rs cs. linear_sum_assignment M = Inr (rs, cs)"
proof -
  obtain rs cs where a: "arg_min_list (assignment_cost M) (candidates M) = (rs, cs)"
    by (cases "arg_min_list (assignment_cost M) (candidates M)")
  have "(rs, cs) \<in> set (candidates M)"
    using arg_min_list_in [OF candidates_nonempty, of "assignment_cost M" M] a by simp
  then have "set rs \<subseteq> {0..<nrows M}" and "set cs \<subseteq> {0..<ncols M}"
    by (auto simp: set_candidates)
  from assignment_cost_real [OF assms this] have "fst (assignment_cost M (rs, cs)) = 0" by simp
  with a real_matrix_no_invalid [OF assms] show ?thesis
    by (simp add: linear_sum_assignment_def)
qed

lemma total_cost_mset:
  "mset m = mset m' \<Longrightarrow> total_cost M m = total_cost M m'"
proof -
  assume "mset m = mset m'"
  then have "mset (map (\<lambda>(i, j). real_of_cell (entry M i j)) m)
           = mset (map (\<lambda>(i, j). real_of_cell (entry M i j)) m')"
    by simp
  then show ?thesis
    unfolding total_cost_def by (metis sum_mset_sum_list)
qed

lemma matching_candidate:
  assumes "is_matching M m"
  shows "\<exists>a\<in>set (candidates M). mset (zip (fst a) (snd a)) = mset m"
proof -
  define m' where "m' = sort_key fst m"
  have ms: "mset m' = mset m" by (simp add: m'_def)
  have z: "zip (map fst m') (map snd m') = m'" by (rule zip_map_fst_snd)
  from assms have len: "length m' = min (nrows M) (ncols M)"
    by (simp add: is_matching_def m'_def)
  have "mset (map fst m') = mset (map fst m)" and "mset (map snd m') = mset (map snd m)"
    using ms by simp_all
  then have d: "distinct (map fst m')" "distinct (map snd m')"
    using assms mset_eq_imp_distinct_iff unfolding is_matching_def by blast+
  have s: "sorted (map fst m')" by (simp add: m'_def)
  have "set m' = set m" by (simp add: m'_def)
  with assms have r: "set (map fst m') \<subseteq> {0..<nrows M}" "set (map snd m') \<subseteq> {0..<ncols M}"
    by (auto simp: is_matching_def list_all_iff)
  have "(map fst m', map snd m') \<in> set (candidates M)"
    using len d s r by (simp add: set_candidates strict_sorted_iff)
  with z ms show ?thesis by force
qed

lemma candidate_is_matching:
  assumes "(rs, cs) \<in> set (candidates M)"
  shows "is_matching M (zip rs cs)"
  using assms
  by (auto simp: set_candidates is_matching_def strict_sorted_iff list_all_iff
        dest: set_zip_leftD set_zip_rightD)

lemma invalid_cell_iff: "invalid_cell c \<longleftrightarrow> c = NaN \<or> c = NegInf"
  by (cases c) simp_all

lemma rejected_iff:
  "list_ex (\<lambda>i. list_ex (\<lambda>j. invalid_cell (entry M i j)) [0..<ncols M]) [0..<nrows M]
     \<longleftrightarrow> (\<exists>i<nrows M. \<exists>j<ncols M. entry M i j = NaN \<or> entry M i j = NegInf)"
  unfolding list_ex_iff invalid_cell_iff by (simp add: Bex_def)

lemma fst_weigh_zero:
  assumes "c \<noteq> NaN" and "c \<noteq> NegInf"
  shows "fst (weigh c) = 0 \<longleftrightarrow> (\<exists>x. c = Finite x)"
  using assms by (cases c) simp_all

lemma fst_assignment_cost_zero:
  assumes ok: "\<not> (\<exists>i<nrows M. \<exists>j<ncols M. entry M i j = NaN \<or> entry M i j = NegInf)"
    and m: "is_matching M m"
  shows "(\<Sum>(i, j)\<leftarrow>m. fst (weigh (entry M i j))) = 0
           \<longleftrightarrow> (\<forall>(i, j)\<in>set m. \<exists>x. entry M i j = Finite x)"
proof -
  have "fst (weigh (entry M i j)) = 0 \<longleftrightarrow> (\<exists>x. entry M i j = Finite x)"
    if "(i, j) \<in> set m" for i j
  proof -
    from m that have "i < nrows M" and "j < ncols M"
      by (auto simp: is_matching_def list_all_iff)
    with ok have "entry M i j \<noteq> NaN" and "entry M i j \<noteq> NegInf" by auto
    then show ?thesis by (rule fst_weigh_zero)
  qed
  then show ?thesis by (fastforce simp: sum_list_eq_0_iff)
qed

lemma fst_assignment_cost_mset:
  assumes "mset (zip (fst a) (snd a)) = mset m"
  shows "fst (assignment_cost M a) = (\<Sum>(i, j)\<leftarrow>m. fst (weigh (entry M i j)))"
proof -
  from assms have "mset (map (\<lambda>(i, j). fst (weigh (entry M i j))) (zip (fst a) (snd a)))
                 = mset (map (\<lambda>(i, j). fst (weigh (entry M i j))) m)"
    by simp
  then show ?thesis
    unfolding assignment_cost_def fst_conv by (metis sum_mset_sum_list)
qed

lemma best_feasible_iff:
  assumes ok: "\<not> (\<exists>i<nrows M. \<exists>j<ncols M. entry M i j = NaN \<or> entry M i j = NegInf)"
  shows "fst (assignment_cost M (arg_min_list (assignment_cost M) (candidates M))) = 0
           \<longleftrightarrow> (\<exists>m. is_matching M m \<and> (\<forall>(i, j)\<in>set m. \<exists>x. entry M i j = Finite x))"
    (is "?l \<longleftrightarrow> ?r")
proof
  define best where "best = arg_min_list (assignment_cost M) (candidates M)"
  have cand: "best \<in> set (candidates M)"
    unfolding best_def by (rule arg_min_list_in [OF candidates_nonempty])
  then have mb: "is_matching M (zip (fst best) (snd best))"
    using candidate_is_matching [of "fst best" "snd best" M] by simp
  {
    assume ?l
    then have "(\<Sum>(i, j)\<leftarrow>zip (fst best) (snd best). fst (weigh (entry M i j))) = 0"
      by (simp add: best_def assignment_cost_def)
    with fst_assignment_cost_zero [OF ok mb] mb show ?r by blast
  }
  {
    assume ?r
    then obtain m where m: "is_matching M m"
      and fin: "\<forall>(i, j)\<in>set m. \<exists>x. entry M i j = Finite x" by blast
    from matching_candidate [OF m] obtain a
      where a: "a \<in> set (candidates M)" and ms: "mset (zip (fst a) (snd a)) = mset m"
      by blast
    from fst_assignment_cost_mset [OF ms] fst_assignment_cost_zero [OF ok m] fin
    have za: "fst (assignment_cost M a) = 0" by simp
    have "assignment_cost M best \<le> assignment_cost M a"
      unfolding best_def using a by (simp add: f_arg_min_list_f [OF candidates_nonempty])
    then have "fst (assignment_cost M best) \<le> fst (assignment_cost M a)"
      by (cases "assignment_cost M best"; cases "assignment_cost M a")
         (auto simp: less_eq_prod_def)
    with za show ?l by (simp add: best_def)
  }
qed

lemma linear_sum_assignment_fails_iff:
  "(\<exists>e. linear_sum_assignment M = Inl e) \<longleftrightarrow>
     (\<exists>i<nrows M. \<exists>j<ncols M. entry M i j = NaN \<or> entry M i j = NegInf)
     \<or> \<not> (\<exists>m. is_matching M m \<and> (\<forall>(i, j)\<in>set m. \<exists>x. entry M i j = Finite x))"
proof (cases "\<exists>i<nrows M. \<exists>j<ncols M. entry M i j = NaN \<or> entry M i j = NegInf")
  case True
  then show ?thesis
    by (simp add: linear_sum_assignment_def rejected_iff)
next
  case False
  from best_feasible_iff [OF False] False show ?thesis
    by (auto simp: linear_sum_assignment_def rejected_iff Let_def)
qed

subsection \<open>The allocator\<close>

lemma allocate_courses_Inr:
  "allocate_courses lsa M = Inr (allocation, unassigned) \<longleftrightarrow>
     (\<exists>row_ind col_ind. lsa M = Inr (row_ind, col_ind) \<and> allocation = zip row_ind col_ind
        \<and> unassigned = sorted_list_of_set (set [0..<ncols M] - set col_ind))"
  by (auto simp: allocate_courses_def Let_def split: sum.splits)

lemma allocate_courses_Inl:
  "allocate_courses lsa M = Inl e \<longleftrightarrow> lsa M = Inl e"
  by (auto simp: allocate_courses_def Let_def split: sum.splits)

lemma M23_solution: "linear_sum_assignment M23 = Inr ([0, 1], [1, 0])"
  by code_simp

lemma M23_run: "allocate_courses linear_sum_assignment M23 = Inr ([(0, 1), (1, 0)], [2])"
  by code_simp

lemma M23_real: "real_matrix M23"
  by code_simp

lemma M_nan_run: "allocate_courses linear_sum_assignment M_nan = Inl ValueError"
  by code_simp

lemma M_inf_run: "allocate_courses linear_sum_assignment M_inf = Inr ([(0, 1)], [0])"
  by code_simp

subsection \<open>The cost matrix and the run\<close>

lemma build_row_cells:
  "build_row fac expanded wts lims = Inr row \<Longrightarrow>
     length row = length expanded
     \<and> (\<forall>j<length expanded. \<exists>c. compute_cost fac (expanded ! j) wts lims = Inr c
                                  \<and> row ! j = Finite c)"
proof (induction expanded arbitrary: row)
  case Nil
  then show ?case by simp
next
  case (Cons crs rest)
  from Cons.prems obtain c row' where c: "compute_cost fac crs wts lims = Inr c"
    and r: "build_row fac rest wts lims = Inr row'" and row: "row = Finite c # row'"
    by (auto split: sum.splits)
  from Cons.IH [OF r] c row show ?case
    by (auto simp: nth_Cons split: nat.splits)
qed

lemma build_rows_cells:
  "build_rows faculties expanded wts lims = Inr rows \<Longrightarrow>
     length rows = length faculties
     \<and> (\<forall>i<length faculties. \<forall>j<length expanded.
            \<exists>c. compute_cost (faculties ! i) (expanded ! j) wts lims = Inr c
                \<and> rows ! i ! j = Finite c)"
proof (induction faculties arbitrary: rows)
  case Nil
  then show ?case by simp
next
  case (Cons fac rest)
  from Cons.prems obtain row rows' where a: "build_row fac expanded wts lims = Inr row"
    and r: "build_rows rest expanded wts lims = Inr rows'" and rows: "rows = row # rows'"
    by (auto split: sum.splits)
  from Cons.IH [OF r] build_row_cells [OF a] rows show ?case
    by (auto simp: nth_Cons split: nat.splits)
qed

lemma build_cost_matrix_cells:
  assumes "build_cost_matrix faculties expanded wts lims = Inr M"
  shows "nrows M = length faculties" and "ncols M = length expanded"
    and "\<forall>i<length faculties. \<forall>j<length expanded.
            \<exists>c. compute_cost (faculties ! i) (expanded ! j) wts lims = Inr c
                \<and> entry M i j = Finite c"
proof -
  from assms obtain rows where r: "build_rows faculties expanded wts lims = Inr rows"
    and M: "M = \<lparr>nrows = length faculties, ncols = length expanded, cells = rows\<rparr>"
    by (auto simp: build_cost_matrix_def Let_def split: sum.splits)
  from M show "nrows M = length faculties" and "ncols M = length expanded" by simp_all
  from build_rows_cells [OF r] M
  show "\<forall>i<length faculties. \<forall>j<length expanded.
            \<exists>c. compute_cost (faculties ! i) (expanded ! j) wts lims = Inr c
                \<and> entry M i j = Finite c"
    by (simp add: entry_def)
qed

lemma run_allotment_Inr:
  "run_allotment lsa faculties courses = Inr out \<longleftrightarrow>
     (\<exists>expanded M allocation unassigned.
         expand_courses courses = Inr expanded
       \<and> build_cost_matrix faculties expanded default_weights default_limits = Inr M
       \<and> allocate_courses lsa M = Inr (allocation, unassigned)
       \<and> allocations_loop faculties expanded allocation Map.empty = Inr (allocations out)
       \<and> unallotted_loop expanded unassigned [] = Inr (unallotted_sections out)
       \<and> printed_cost_matrix out = M)"
  by (cases out)
     (auto simp: run_allotment_def default_weights_def default_limits_def Let_def
        split: sum.splits prod.splits)

lemma run_allotment_pricing_error:
  assumes "expand_courses courses = Inr expanded"
    and "build_cost_matrix faculties expanded default_weights default_limits = Inl e"
  shows "run_allotment lsa faculties courses = Inl e"
  using assms
  by (simp add: run_allotment_def default_weights_def default_limits_def)

lemma run_example:
  "map_sum id printed_cost_matrix (run_allotment linear_sum_assignment [faculty_A] [course_B])
     = Inr \<lparr>nrows = 1, ncols = 1, cells = [[Finite 107]]\<rparr>"
  by code_simp

section \<open>The claims\<close>

subsection \<open>C1: the cost is the sum of five components\<close>

text \<open>
  Claim C1. For a section that carries a course code and a type, \<open>compute_cost\<close>
  returns exactly the sum of the preference cost (rank 1 gives 0, rank 2 gives 10, rank 3
  gives 20, any other rank 30, an absent code 100), the workload cost, the semester penalty
  of 1000, the history cost and the timestamp cost, each as the specification words it.
\<close>

theorem compute_cost_five_components:
  assumes "crs ''course_code'' = Some code" and "crs ''type'' = Some ty"
  shows "compute_cost fac crs wts lims =
           Inr (preference_cost fac code + workload_cost fac ty wts lims
                + semester_penalty fac ty lims + history_cost fac code wts
                + timestamp_cost fac ty wts)"
  using assms
  by (simp add: compute_cost_def preference_cost_def workload_cost_def semester_penalty_def
        history_cost_def timestamp_cost_def Let_def)

text \<open>
  The theorem at a UG section of course C1 and a faculty member who ranks it second:
  10 + 3 + 1000 + 10 + 5 = 1028.
\<close>

theorem compute_cost_five_components_witness:
  "section_C1_S1 ''course_code'' = Some (PStr ''C1'') \<and> section_C1_S1 ''type'' = Some (PStr ''UG'')
   \<and> compute_cost faculty_A section_C1_S1 default_weights default_limits = Inr 1028
   \<and> preference_cost faculty_A (PStr ''C1'') = 10
   \<and> workload_cost faculty_A (PStr ''UG'') default_weights default_limits = 3
   \<and> semester_penalty faculty_A (PStr ''UG'') default_limits = 1000
   \<and> history_cost faculty_A (PStr ''C1'') default_weights = 10
   \<and> timestamp_cost faculty_A (PStr ''UG'') default_weights = 5"
  using compute_cost_five_components
          [of section_C1_S1 "PStr ''C1''" "PStr ''UG''" faculty_A default_weights default_limits]
  by (simp add: section_C1_S1_def faculty_A_def default_weights_def default_limits_def
        preference_cost_def workload_cost_def semester_penalty_def history_cost_def
        timestamp_cost_def)

subsection \<open>C2: the allocation has minimum total cost\<close>

text \<open>
  Claim C2. For every cost matrix with real entries, \<open>allocate_courses\<close>, run with
  the assignment solver, returns an allocation that is a matching of \<open>min F S\<close> pairs
  and whose total cost is at most that of any other matching which uses each row and each
  column at most once and covers \<open>min F S\<close> pairs.
\<close>

theorem allocate_courses_minimum_cost:
  assumes "real_matrix M"
  shows "\<exists>allocation unassigned.
           allocate_courses linear_sum_assignment M = Inr (allocation, unassigned)
           \<and> is_matching M allocation
           \<and> (\<forall>m. is_matching M m \<longrightarrow> total_cost M allocation \<le> total_cost M m)"
proof -
  from linear_sum_assignment_real [OF assms]
  obtain rs cs where sol: "linear_sum_assignment M = Inr (rs, cs)" by blast
  note cand = linear_sum_assignment_Inr(1) [OF sol] and best = linear_sum_assignment_Inr(2) [OF sol]
  have run: "allocate_courses linear_sum_assignment M
               = Inr (zip rs cs, sorted_list_of_set (set [0..<ncols M] - set cs))"
    using sol by (simp add: allocate_courses_Inr)
  have matching: "is_matching M (zip rs cs)"
    by (rule candidate_is_matching [OF cand])
  have range: "set rs \<subseteq> {0..<nrows M}" "set cs \<subseteq> {0..<ncols M}"
    using cand by (auto simp: set_candidates)
  have "total_cost M (zip rs cs) \<le> total_cost M m" if m: "is_matching M m" for m
  proof -
    from matching_candidate [OF m] obtain rs' cs'
      where c': "(rs', cs') \<in> set (candidates M)" and ms: "mset (zip rs' cs') = mset m"
      by auto
    from c' have range': "set rs' \<subseteq> {0..<nrows M}" "set cs' \<subseteq> {0..<ncols M}"
      by (auto simp: set_candidates)
    from best c' have "assignment_cost M (rs, cs) \<le> assignment_cost M (rs', cs')" by blast
    then have "total_cost M (zip rs cs) \<le> total_cost M (zip rs' cs')"
      by (simp add: assignment_cost_real [OF assms range] assignment_cost_real [OF assms range']
            less_eq_prod_def)
    also have "\<dots> = total_cost M m" by (rule total_cost_mset [OF ms])
    finally show ?thesis .
  qed
  with run matching show ?thesis by blast
qed

text \<open>
  The theorem at a matrix of two rows and three columns: the allocation costs 3, the
  matching of row 0 with column 2 and row 1 with column 1 costs 4.
\<close>

theorem allocate_courses_minimum_cost_witness:
  "real_matrix M23
   \<and> allocate_courses linear_sum_assignment M23 = Inr ([(0, 1), (1, 0)], [2])
   \<and> is_matching M23 [(0, 2), (1, 1)]
   \<and> total_cost M23 [(0, 1), (1, 0)] \<le> total_cost M23 [(0, 2), (1, 1)]"
proof -
  have m: "is_matching M23 [(0, 2), (1, 1)]"
    by (simp add: is_matching_def M23_def)
  from allocate_courses_minimum_cost [OF M23_real] m M23_run
  have "total_cost M23 [(0, 1), (1, 0)] \<le> total_cost M23 [(0, 2), (1, 1)]"
    by auto
  with M23_real M23_run m show ?thesis by simp
qed

subsection \<open>C3: the allocation is a matching of min F S pairs\<close>

text \<open>
  Claim C3. The allocation returned by \<open>allocate_courses\<close>, run with the assignment
  solver, has exactly \<open>min F S\<close> pairs, with pairwise distinct row indices and
  pairwise distinct column indices, all within the matrix; and on a matrix with real
  entries the call does return.
\<close>

theorem allocate_courses_matching:
  "(real_matrix M \<longrightarrow>
      (\<exists>allocation unassigned.
          allocate_courses linear_sum_assignment M = Inr (allocation, unassigned)))
   \<and> (allocate_courses linear_sum_assignment M = Inr (allocation, unassigned) \<longrightarrow>
        length allocation = min (nrows M) (ncols M)
        \<and> distinct (map fst allocation) \<and> distinct (map snd allocation)
        \<and> (\<forall>(i, j)\<in>set allocation. i < nrows M \<and> j < ncols M))"
proof (intro conjI impI)
  assume "real_matrix M"
  from linear_sum_assignment_real [OF this]
  show "\<exists>allocation unassigned.
          allocate_courses linear_sum_assignment M = Inr (allocation, unassigned)"
    by (auto simp: allocate_courses_Inr)
next
  assume "allocate_courses linear_sum_assignment M = Inr (allocation, unassigned)"
  then obtain rs cs where sol: "linear_sum_assignment M = Inr (rs, cs)"
    and alloc: "allocation = zip rs cs"
    by (auto simp: allocate_courses_Inr)
  from candidate_is_matching [OF linear_sum_assignment_Inr(1) [OF sol]]
  have m: "is_matching M allocation" by (simp add: alloc)
  then show "length allocation = min (nrows M) (ncols M)"
    and "distinct (map fst allocation)" and "distinct (map snd allocation)"
    and "\<forall>(i, j)\<in>set allocation. i < nrows M \<and> j < ncols M"
    by (simp_all add: is_matching_def list_all_iff)
qed

text \<open>
  The theorem at the matrix of two rows and three columns.
\<close>

theorem allocate_courses_matching_witness:
  "real_matrix M23
   \<and> allocate_courses linear_sum_assignment M23 = Inr ([(0, 1), (1, 0)], [2])
   \<and> length [(0, 1), (1, 0) :: nat \<times> nat] = min (nrows M23) (ncols M23)
   \<and> distinct (map fst [(0, 1), (1, 0) :: nat \<times> nat])
   \<and> distinct (map snd [(0, 1), (1, 0) :: nat \<times> nat])"
  using allocate_courses_matching [of M23 "[(0, 1), (1, 0)]" "[2]"] M23_real M23_run
  by simp

subsection \<open>C4: assigned and unassigned columns partition the columns\<close>

text \<open>
  Claim C4. Whenever the solver returns two index arrays of the same length with column
  indices below the number of columns \<open>S\<close>, \<open>allocate_courses\<close> returns an
  unassigned list that, together with the columns of the allocation, partitions
  \<open>{0..<S}\<close>: their union is the whole set, they are disjoint, and the unassigned
  list has no duplicates.
\<close>

theorem allocate_courses_unassigned_partition:
  assumes "lsa M = Inr (row_ind, col_ind)"
    and "length row_ind = length col_ind"
    and "set col_ind \<subseteq> {0..<ncols M}"
  shows "\<exists>allocation unassigned.
           allocate_courses lsa M = Inr (allocation, unassigned)
           \<and> set unassigned \<union> snd ` set allocation = {0..<ncols M}
           \<and> set unassigned \<inter> snd ` set allocation = {}
           \<and> distinct unassigned"
proof -
  have run: "allocate_courses lsa M
           = Inr (zip row_ind col_ind, sorted_list_of_set (set [0..<ncols M] - set col_ind))"
    using assms(1) by (simp add: allocate_courses_Inr)
  have cols: "snd ` set (zip row_ind col_ind) = set col_ind"
    using assms(2) by (metis map_snd_zip set_map)
  have un: "set (sorted_list_of_set (set [0..<ncols M] - set col_ind)) = {0..<ncols M} - set col_ind"
    by simp
  show ?thesis
    unfolding run using assms(3) by (auto simp: cols un simp del: set_upt)
qed

text \<open>
  The theorem at the matrix of two rows and three columns, with the assignment solver:
  columns 1 and 0 are assigned, column 2 is unassigned.
\<close>

theorem allocate_courses_unassigned_partition_witness:
  "linear_sum_assignment M23 = Inr ([0, 1], [1, 0])
   \<and> length [0, 1 :: nat] = length [1, 0 :: nat]
   \<and> set [1, 0] \<subseteq> {0..<ncols M23}
   \<and> allocate_courses linear_sum_assignment M23 = Inr ([(0, 1), (1, 0)], [2])
   \<and> set [2] \<union> snd ` set [(0, 1), (1, 0) :: nat \<times> nat] = {0..<ncols M23}"
proof -
  have l: "length [0, 1 :: nat] = length [1, 0 :: nat]" by simp
  have c: "set [1, 0] \<subseteq> {0..<ncols M23}" by (simp add: M23_def)
  from allocate_courses_unassigned_partition
         [of linear_sum_assignment M23 "[0, 1]" "[1, 0]", OF M23_solution l c]
  obtain allocation unassigned
    where r: "allocate_courses linear_sum_assignment M23 = Inr (allocation, unassigned)"
      and u: "set unassigned \<union> snd ` set allocation = {0..<ncols M23}"
    by blast
  from r have "allocation = [(0, 1), (1, 0)]" and "unassigned = [2]"
    by (simp_all add: M23_run)
  with u have "set [2] \<union> snd ` set [(0, 1), (1, 0) :: nat \<times> nat] = {0..<ncols M23}"
    by simp
  then show ?thesis
    using M23_solution l c M23_run by (simp only: simp_thms)
qed

subsection \<open>C5: expansion count, order and labels\<close>

text \<open>
  Claim C5. When every requirement has a code and its sections field is missing or a
  positive integer, \<open>expand_courses\<close> returns the sections of the requirements in
  the order of the input, each group in ascending section index from 1; the number of
  entries is the sum of the sections values (1 when the field is missing); the entry of
  index \<open>k + 1\<close> has the label \<open>code-S(k+1)\<close> and carries the code of its
  requirement as course code.
\<close>

theorem expand_courses_sections:
  assumes "\<forall>crs\<in>set courses. crs ''code'' \<noteq> None
             \<and> (crs ''sections'' = None \<or> (\<exists>n. 0 < n \<and> crs ''sections'' = Some (PInt n)))"
  shows "expand_courses courses = Inr (concat (map requirement_sections courses))
         \<and> int (length (concat (map requirement_sections courses)))
             = (\<Sum>crs\<leftarrow>courses. sections_value crs)
         \<and> (\<forall>crs\<in>set courses. \<forall>code. crs ''code'' = Some code \<longrightarrow>
               length (requirement_sections crs) = nat (sections_value crs)
               \<and> (\<forall>k < nat (sections_value crs).
                     (requirement_sections crs ! k) ''code''
                        = Some (PStr (py_str code @ ''-S'' @ str_int (int k + 1)))
                     \<and> (requirement_sections crs ! k) ''course_code'' = Some code
                     \<and> (requirement_sections crs ! k) ''section'' = Some (PInt (int k + 1))))"
proof (intro conjI)
  from assms have ex: "\<forall>crs\<in>set courses. expandable crs"
    by (auto simp: expandable_def int_sections_def)
  then show "expand_courses courses = Inr (concat (map requirement_sections courses))"
    by (simp add: expand_courses_def expand_loop_expandable)
  from assms have code: "\<forall>crs\<in>set courses. crs ''code'' \<noteq> None" by blast
  from assms have pos: "\<forall>crs\<in>set courses. 0 \<le> sections_value crs"
    by (auto simp: sections_value_def)
  with length_concat_requirement_sections [OF code]
  show "int (length (concat (map requirement_sections courses)))
          = (\<Sum>crs\<leftarrow>courses. sections_value crs)"
    by (simp add: int_sum_list_nat)
  show "\<forall>crs\<in>set courses. \<forall>code. crs ''code'' = Some code \<longrightarrow>
               length (requirement_sections crs) = nat (sections_value crs)
               \<and> (\<forall>k < nat (sections_value crs).
                     (requirement_sections crs ! k) ''code''
                        = Some (PStr (py_str code @ ''-S'' @ str_int (int k + 1)))
                     \<and> (requirement_sections crs ! k) ''course_code'' = Some code
                     \<and> (requirement_sections crs ! k) ''section'' = Some (PInt (int k + 1)))"
    by (auto simp: length_requirement_sections nth_requirement_sections)
qed

text \<open>
  The theorem at a requirement with two sections followed by one without a sections field.
\<close>

theorem expand_courses_sections_witness:
  "expand_courses [course_A, course_B]
     = Inr [course_A(''course_code'' \<mapsto> PStr ''C1'', ''code'' \<mapsto> PStr ''C1-S1'', ''section'' \<mapsto> PInt 1),
            course_A(''course_code'' \<mapsto> PStr ''C1'', ''code'' \<mapsto> PStr ''C1-S2'', ''section'' \<mapsto> PInt 2),
            course_B(''course_code'' \<mapsto> PStr ''C2'', ''code'' \<mapsto> PStr ''C2-S1'', ''section'' \<mapsto> PInt 1)]"
proof -
  have h: "\<forall>crs\<in>set [course_A, course_B]. crs ''code'' \<noteq> None
             \<and> (crs ''sections'' = None \<or> (\<exists>n. 0 < n \<and> crs ''sections'' = Some (PInt n)))"
    by (simp add: course_A_def course_B_def)
  have a: "requirement_sections course_A =
     [course_A(''course_code'' \<mapsto> PStr ''C1'', ''code'' \<mapsto> PStr ''C1-S1'', ''section'' \<mapsto> PInt 1),
      course_A(''course_code'' \<mapsto> PStr ''C1'', ''code'' \<mapsto> PStr ''C1-S2'', ''section'' \<mapsto> PInt 2)]"
    by (simp add: requirement_sections_def sections_value_def course_A_def upto.simps
          str_int_1 str_int_2)
  have b: "requirement_sections course_B =
     [course_B(''course_code'' \<mapsto> PStr ''C2'', ''code'' \<mapsto> PStr ''C2-S1'', ''section'' \<mapsto> PInt 1)]"
    by (simp add: requirement_sections_def sections_value_def course_B_def upto.simps str_int_1)
  from expand_courses_sections [OF h] show ?thesis
    by (simp add: a b)
qed

subsection \<open>C6: sign of the cost\<close>

text \<open>
  Claim C6 says that the cost is non-negative under the default configuration for every
  faculty record within the data model. It is not: the workload term
  \<open>max_courses - courses_left\<close> is negative for a faculty member whose remaining quota
  exceeds the limit. A record with \<open>courses_left = 1000\<close> and a first preference for a
  PG course costs \<open>- 995\<close>.
\<close>

theorem compute_cost_negative_counterexample:
  "faculty_in_data_model faculty_B
   \<and> compute_cost faculty_B section_P1_S1 default_weights default_limits = Inr (- 995)"
  by (simp add: faculty_in_data_model_def faculty_B_def section_P1_S1_def compute_cost_def
        default_weights_def default_limits_def)

text \<open>
  Claim C6, amended. If moreover the remaining quota does not exceed \<open>max_courses\<close>
  and, for a UG section, the remaining UG quota does not exceed \<open>max_ug\<close>, the cost
  returned under the default weights and limits is non-negative.
\<close>

theorem compute_cost_nonneg:
  assumes "faculty_in_data_model fac"
    and "courses_left fac \<le> max_courses default_limits"
    and "crs ''type'' = Some (PStr ''UG'') \<longrightarrow> ug_left fac \<le> max_ug default_limits"
    and "compute_cost fac crs default_weights default_limits = Inr c"
  shows "0 \<le> c"
proof -
  from assms(4) obtain code ty where code: "crs ''course_code'' = Some code"
    and ty: "crs ''type'' = Some ty"
    by (auto simp: compute_cost_def split: option.splits)
  have p: "0 \<le> preference_cost fac code"
    by (simp add: preference_cost_def split: option.splits)
  have w: "0 \<le> workload_cost fac ty default_weights default_limits"
    using assms(2,3) ty by (simp add: workload_cost_def default_weights_def default_limits_def)
  have s: "0 \<le> semester_penalty fac ty default_limits"
    by (simp add: semester_penalty_def)
  have h: "0 \<le> history_cost fac code default_weights"
    using assms(1)
    by (auto simp: history_cost_def default_weights_def faculty_in_data_model_def
          split: option.splits)
  have t: "0 \<le> timestamp_cost fac ty default_weights"
    using assms(1)
    by (simp add: timestamp_cost_def default_weights_def faculty_in_data_model_def)
  from compute_cost_parts [OF code ty, of fac default_weights default_limits] assms(4)
  have "c = preference_cost fac code + workload_cost fac ty default_weights default_limits
                + semester_penalty fac ty default_limits + history_cost fac code default_weights
                + timestamp_cost fac ty default_weights"
    by simp
  with p w s h t show ?thesis by linarith
qed

text \<open>
  The amended theorem at the faculty member and section of the C1 example.
\<close>

theorem compute_cost_nonneg_witness:
  "faculty_in_data_model faculty_A
   \<and> courses_left faculty_A \<le> max_courses default_limits
   \<and> section_C1_S1 ''type'' = Some (PStr ''UG'')
   \<and> ug_left faculty_A \<le> max_ug default_limits
   \<and> compute_cost faculty_A section_C1_S1 default_weights default_limits = Inr 1028
   \<and> (0::real) \<le> 1028"
proof -
  have d: "faculty_in_data_model faculty_A"
    by (simp add: faculty_in_data_model_def faculty_A_def)
  have l: "courses_left faculty_A \<le> max_courses default_limits"
    by (simp add: faculty_A_def default_limits_def)
  have u: "section_C1_S1 ''type'' = Some (PStr ''UG'') \<longrightarrow> ug_left faculty_A \<le> max_ug default_limits"
    by (simp add: faculty_A_def default_limits_def)
  have c: "compute_cost faculty_A section_C1_S1 default_weights default_limits = Inr 1028"
    by (simp add: compute_cost_def faculty_A_def section_C1_S1_def default_weights_def
          default_limits_def)
  have t: "section_C1_S1 ''type'' = Some (PStr ''UG'')"
    by (simp add: section_C1_S1_def)
  have v: "ug_left faculty_A \<le> max_ug default_limits"
    by (simp add: faculty_A_def default_limits_def)
  from compute_cost_nonneg [OF d l u c] d l t v c show ?thesis by simp
qed

subsection \<open>C7: malformed course requirements\<close>

text \<open>
  Claim C7 says that \<open>expand_courses\<close> raises \<open>InvalidInputError\<close> when the
  sections field is not a positive integer or the code is missing. The function validates
  nothing: a requirement with zero sections is skipped and the call returns normally, and
  a missing code surfaces as the \<open>KeyError\<close> of the dictionary access.
\<close>

theorem expand_courses_no_validation_counterexample:
  "expand_courses [course_zero] = Inr [] \<and> expand_courses [course_nocode] = Inl KeyError"
  by (simp add: expand_courses_def course_zero_def course_nocode_def)

text \<open>
  Claim C7, amended. \<open>expand_courses\<close> never raises \<open>InvalidInputError\<close>. It
  fails exactly when some requirement has no code or has a sections value that is not an
  integer. The error is that of the first such requirement of the list: \<open>KeyError\<close>
  when its code is missing, \<open>TypeError\<close> when it has a code and its sections value is
  not an integer. A missing type, and a zero or negative sections value, are not detected.
\<close>

theorem expand_courses_failure:
  "expand_courses courses \<noteq> Inl InvalidInputError
   \<and> ((\<exists>e. expand_courses courses = Inl e) \<longleftrightarrow>
        (\<exists>crs\<in>set courses. crs ''code'' = None
            \<or> (\<exists>v. crs ''sections'' = Some v \<and> (\<forall>n. v \<noteq> PInt n))))
   \<and> ((\<forall>c\<in>set before. c ''code'' \<noteq> None
            \<and> (\<forall>v. c ''sections'' = Some v \<longrightarrow> (\<exists>n. v = PInt n)))
        \<and> crs ''code'' = None
      \<longrightarrow> expand_courses (before @ crs # after) = Inl KeyError)
   \<and> ((\<forall>c\<in>set before. c ''code'' \<noteq> None
            \<and> (\<forall>v. c ''sections'' = Some v \<longrightarrow> (\<exists>n. v = PInt n)))
        \<and> crs ''code'' \<noteq> None \<and> crs ''sections'' = Some v \<and> (\<forall>n. v \<noteq> PInt n)
      \<longrightarrow> expand_courses (before @ crs # after) = Inl TypeError)"
proof (intro conjI impI)
  show "expand_courses courses \<noteq> Inl InvalidInputError"
    using expand_loop_error_kind [of courses "[]" InvalidInputError]
    by (auto simp: expand_courses_def)
  have "\<And>crs. \<not> expandable crs \<longleftrightarrow>
          crs ''code'' = None \<or> (\<exists>v. crs ''sections'' = Some v \<and> (\<forall>n. v \<noteq> PInt n))"
    by (auto simp: expandable_def int_sections_def split: option.splits pyval.splits)
  with expand_loop_error_iff [of courses "[]"]
  show "(\<exists>e. expand_courses courses = Inl e) \<longleftrightarrow>
        (\<exists>crs\<in>set courses. crs ''code'' = None
            \<or> (\<exists>v. crs ''sections'' = Some v \<and> (\<forall>n. v \<noteq> PInt n)))"
    by (simp add: expand_courses_def)
next
  assume a: "(\<forall>c\<in>set before. c ''code'' \<noteq> None
            \<and> (\<forall>v. c ''sections'' = Some v \<longrightarrow> (\<exists>n. v = PInt n)))
        \<and> crs ''code'' = None"
  then have b: "\<forall>c\<in>set before. expandable c"
    using requirement_literal_expandable by blast
  from a have n: "\<not> expandable crs" by (simp add: expandable_def)
  from expand_loop_first_offender [OF b n, of "after" "[]"] a
  show "expand_courses (before @ crs # after) = Inl KeyError"
    by (simp add: expand_courses_def)
next
  assume a: "(\<forall>c\<in>set before. c ''code'' \<noteq> None
            \<and> (\<forall>v. c ''sections'' = Some v \<longrightarrow> (\<exists>n. v = PInt n)))
        \<and> crs ''code'' \<noteq> None \<and> crs ''sections'' = Some v \<and> (\<forall>n. v \<noteq> PInt n)"
  then have b: "\<forall>c\<in>set before. expandable c"
    using requirement_literal_expandable by blast
  from a have n: "\<not> expandable crs"
    by (cases v) (simp_all add: expandable_def int_sections_def)
  from expand_loop_first_offender [OF b n, of "after" "[]"] a
  show "expand_courses (before @ crs # after) = Inl TypeError"
    by (simp add: expand_courses_def)
qed

text \<open>
  The amended theorem at two lists that start with a well-formed requirement: where the
  requirement with the string \<open>2\<close> as sections value comes first the error is
  \<open>TypeError\<close>, where the requirement without a code comes first it is
  \<open>KeyError\<close>.
\<close>

theorem expand_courses_failure_witness:
  "course_A ''code'' \<noteq> None \<and> course_A ''sections'' = Some (PInt 2)
   \<and> course_str ''code'' \<noteq> None \<and> course_str ''sections'' = Some (PStr ''2'')
   \<and> expand_courses [course_A, course_str, course_nocode] = Inl TypeError
   \<and> course_nocode ''code'' = None
   \<and> expand_courses [course_A, course_nocode, course_str] = Inl KeyError"
proof -
  have b: "\<forall>c\<in>set [course_A]. c ''code'' \<noteq> None
            \<and> (\<forall>v. c ''sections'' = Some v \<longrightarrow> (\<exists>n. v = PInt n))"
    by (simp add: course_A_def)
  have s: "course_str ''code'' \<noteq> None \<and> course_str ''sections'' = Some (PStr ''2'')
             \<and> (\<forall>n. PStr ''2'' \<noteq> PInt n)"
    by (simp add: course_str_def)
  have k: "course_nocode ''code'' = None"
    by (simp add: course_nocode_def)
  have a: "course_A ''code'' \<noteq> None \<and> course_A ''sections'' = Some (PInt 2)"
    by (simp add: course_A_def)
  from expand_courses_failure
         [of "[]" "[course_A]" course_str "[course_nocode]" "PStr ''2''"] b s
  have t: "expand_courses ([course_A] @ course_str # [course_nocode]) = Inl TypeError"
    by blast
  from expand_courses_failure
         [of "[]" "[course_A]" course_nocode "[course_str]" "PNone"] b k
  have e: "expand_courses ([course_A] @ course_nocode # [course_str]) = Inl KeyError"
    by blast
  from a s k t e show ?thesis by simp
qed

subsection \<open>C8: matrices with non-finite cells\<close>

text \<open>
  Claim C8 says that the allocator fails with \<open>InvalidMatrixError\<close> on every matrix
  with a non-finite cell. \<open>allocate_courses\<close> checks nothing itself. On a matrix whose
  only cell is NaN the error is the solver's \<open>ValueError\<close>; on the matrix with cells
  positive infinity and 1 the call returns an allocation.
\<close>

theorem allocate_courses_nonfinite_counterexample:
  "allocate_courses linear_sum_assignment M_nan = Inl ValueError
   \<and> allocate_courses linear_sum_assignment M_inf = Inr ([(0, 1)], [0])"
  by code_simp

text \<open>
  Claim C8, amended. \<open>allocate_courses\<close> checks nothing itself: it fails exactly
  when the solver fails, and with the solver's error, whatever the solver. With the
  assignment solver the error is always \<open>ValueError\<close>, never
  \<open>InvalidMatrixError\<close>, and the call fails exactly when a cell is NaN or negative
  infinity or when no matching goes through finite cells only; so a matrix with positive
  infinities that has a matching through finite cells is allocated normally.
\<close>

theorem allocate_courses_failure:
  "(allocate_courses lsa M = Inl e \<longleftrightarrow> lsa M = Inl e)
   \<and> (allocate_courses linear_sum_assignment M = Inl e \<longrightarrow> e = ValueError)
   \<and> ((\<exists>e. allocate_courses linear_sum_assignment M = Inl e) \<longleftrightarrow>
        (\<exists>i<nrows M. \<exists>j<ncols M. entry M i j = NaN \<or> entry M i j = NegInf)
        \<or> \<not> (\<exists>m. is_matching M m \<and> (\<forall>(i, j)\<in>set m. \<exists>x. entry M i j = Finite x)))"
proof (intro conjI impI)
  show "allocate_courses lsa M = Inl e \<longleftrightarrow> lsa M = Inl e"
    by (rule allocate_courses_Inl)
  show "e = ValueError" if "allocate_courses linear_sum_assignment M = Inl e"
    using that by (simp add: allocate_courses_Inl linear_sum_assignment_error)
  show "(\<exists>e. allocate_courses linear_sum_assignment M = Inl e) \<longleftrightarrow>
        (\<exists>i<nrows M. \<exists>j<ncols M. entry M i j = NaN \<or> entry M i j = NegInf)
        \<or> \<not> (\<exists>m. is_matching M m \<and> (\<forall>(i, j)\<in>set m. \<exists>x. entry M i j = Finite x))"
    by (simp only: allocate_courses_Inl linear_sum_assignment_fails_iff)
qed

text \<open>
  The amended theorem at the matrix whose only cell is NaN, which is refused, and at the
  matrix with the cells positive infinity and 1, which is allocated and so has a matching
  through finite cells.
\<close>

theorem allocate_courses_failure_witness:
  "allocate_courses linear_sum_assignment M_nan = Inl ValueError
   \<and> (\<exists>i<nrows M_nan. \<exists>j<ncols M_nan. entry M_nan i j = NaN \<or> entry M_nan i j = NegInf)
   \<and> allocate_courses linear_sum_assignment M_inf = Inr ([(0, 1)], [0])
   \<and> (\<exists>m. is_matching M_inf m \<and> list_all (\<lambda>(i, j). \<exists>x. entry M_inf i j = Finite x) m)"
proof -
  have n: "\<exists>i<nrows M_nan. \<exists>j<ncols M_nan. entry M_nan i j = NaN \<or> entry M_nan i j = NegInf"
    by (simp add: M_nan_def entry_def)
  have "\<not> (\<exists>e. allocate_courses linear_sum_assignment M_inf = Inl e)"
    by (simp add: M_inf_run)
  with allocate_courses_failure [of linear_sum_assignment M_inf ValueError]
  have "\<exists>m. is_matching M_inf m \<and> (\<forall>(i, j)\<in>set m. \<exists>x. entry M_inf i j = Finite x)"
    by blast
  then have "\<exists>m. is_matching M_inf m \<and> list_all (\<lambda>(i, j). \<exists>x. entry M_inf i j = Finite x) m"
    by (simp add: list_all_iff)
  with n M_nan_run M_inf_run show ?thesis by blast
qed

subsection \<open>C9: where the configuration comes from\<close>

text \<open>
  Claim C9 says that \<open>run_allotment\<close> prices with the weights and limits of its
  caller. The function has two parameters, the faculty and the courses, and defines both
  configurations in its body. For one faculty member and one PG course it prices the pair
  at 107; a caller who wants the weight 2 for the overall workload, under which the cost
  model gives 109, has no means to say so.
\<close>

theorem run_allotment_ignores_configuration_counterexample:
  "map_sum id printed_cost_matrix (run_allotment linear_sum_assignment [faculty_A] [course_B])
     = Inr \<lparr>nrows = 1, ncols = 1, cells = [[Finite 107]]\<rparr>
   \<and> map_sum id (\<lambda>expanded. build_cost_matrix [faculty_A] expanded custom_weights default_limits)
        (expand_courses [course_B])
     = Inr (Inr \<lparr>nrows = 1, ncols = 1, cells = [[Finite 109]]\<rparr>)"
  by code_simp

text \<open>
  Claim C9, amended. \<open>run_allotment\<close> takes the faculty and the courses only and
  always works with the weights 1, 1, 5, 10 and the limits 5, 2, 1, 2, which it defines
  itself. A run returns a result exactly when the expansion returns, \<open>build_cost_matrix\<close>
  under this configuration gives a matrix, each cell of which is the value of
  \<open>compute_cost\<close> under this configuration, the solver allocates on that very matrix,
  and the returned allocations and unallotted sections are read off that allocation; the
  matrix printed is the same one. When pricing under this configuration fails, the run
  fails with that error. Only \<open>compute_cost\<close> and \<open>build_cost_matrix\<close> take the
  configuration as parameters.
\<close>

theorem run_allotment_default_configuration:
  "(run_allotment lsa faculties courses = Inr out \<longleftrightarrow>
      (\<exists>expanded M allocation unassigned.
          expand_courses courses = Inr expanded
        \<and> build_cost_matrix faculties expanded default_weights default_limits = Inr M
        \<and> (\<forall>i<length faculties. \<forall>j<length expanded.
              \<exists>c. compute_cost (faculties ! i) (expanded ! j) default_weights default_limits
                     = Inr c
                  \<and> entry M i j = Finite c)
        \<and> allocate_courses lsa M = Inr (allocation, unassigned)
        \<and> allocations_loop faculties expanded allocation Map.empty = Inr (allocations out)
        \<and> unallotted_loop expanded unassigned [] = Inr (unallotted_sections out)
        \<and> printed_cost_matrix out = M))
   \<and> (expand_courses courses = Inr expanded'
        \<and> build_cost_matrix faculties expanded' default_weights default_limits = Inl e
      \<longrightarrow> run_allotment lsa faculties courses = Inl e)"
proof (intro conjI impI)
  show "run_allotment lsa faculties courses = Inr out \<longleftrightarrow>
      (\<exists>expanded M allocation unassigned.
          expand_courses courses = Inr expanded
        \<and> build_cost_matrix faculties expanded default_weights default_limits = Inr M
        \<and> (\<forall>i<length faculties. \<forall>j<length expanded.
              \<exists>c. compute_cost (faculties ! i) (expanded ! j) default_weights default_limits
                     = Inr c
                  \<and> entry M i j = Finite c)
        \<and> allocate_courses lsa M = Inr (allocation, unassigned)
        \<and> allocations_loop faculties expanded allocation Map.empty = Inr (allocations out)
        \<and> unallotted_loop expanded unassigned [] = Inr (unallotted_sections out)
        \<and> printed_cost_matrix out = M)"
    unfolding run_allotment_Inr using build_cost_matrix_cells(3) by blast
  show "run_allotment lsa faculties courses = Inl e"
    if "expand_courses courses = Inr expanded'
        \<and> build_cost_matrix faculties expanded' default_weights default_limits = Inl e"
    using that run_allotment_pricing_error by blast
qed

text \<open>
  The amended theorem at the run with one faculty member and one PG course.
\<close>

theorem run_allotment_default_configuration_witness:
  "map_sum id printed_cost_matrix (run_allotment linear_sum_assignment [faculty_A] [course_B])
     = Inr \<lparr>nrows = 1, ncols = 1, cells = [[Finite 107]]\<rparr>
   \<and> (\<exists>expanded allocation unassigned. expand_courses [course_B] = Inr expanded
         \<and> build_cost_matrix [faculty_A] expanded default_weights default_limits
             = Inr \<lparr>nrows = 1, ncols = 1, cells = [[Finite 107]]\<rparr>
         \<and> allocate_courses linear_sum_assignment \<lparr>nrows = 1, ncols = 1, cells = [[Finite 107]]\<rparr>
             = Inr (allocation, unassigned))"
proof -
  from run_example obtain out
    where r: "run_allotment linear_sum_assignment [faculty_A] [course_B] = Inr out"
      and p: "printed_cost_matrix out = \<lparr>nrows = 1, ncols = 1, cells = [[Finite 107]]\<rparr>"
    by (cases "run_allotment linear_sum_assignment [faculty_A] [course_B]") auto
  from run_allotment_default_configuration
         [of linear_sum_assignment "[faculty_A]" "[course_B]" out "[]" KeyError] r
  obtain expanded M allocation unassigned
    where "expand_courses [course_B] = Inr expanded"
      and "build_cost_matrix [faculty_A] expanded default_weights default_limits = Inr M"
      and "allocate_courses linear_sum_assignment M = Inr (allocation, unassigned)"
      and "printed_cost_matrix out = M"
    by blast
  with p run_example show ?thesis by auto
qed

subsection \<open>C10: when the expansion returns\<close>

text \<open>
  Claim C10 says that \<open>expand_courses\<close> returns normally whenever every entry has a
  code. A sections value that is not an integer still raises: for the string \<open>2\<close>,
  \<^verbatim>\<open>num_sections + 1\<close> is a \<open>TypeError\<close>.
\<close>

theorem expand_courses_type_error_counterexample:
  "course_str ''code'' \<noteq> None \<and> expand_courses [course_str] = Inl TypeError"
  by (simp add: expand_courses_def course_str_def)

text \<open>
  Claim C10, amended. When every entry has a code and a sections value that, if present,
  is an integer, \<open>expand_courses\<close> returns normally; and a requirement whose sections
  value is zero or negative is skipped: the result is that of the list without it.
\<close>

theorem expand_courses_returns:
  "((\<forall>crs\<in>set courses. crs ''code'' \<noteq> None
        \<and> (\<forall>v. crs ''sections'' = Some v \<longrightarrow> (\<exists>n. v = PInt n)))
      \<longrightarrow> (\<exists>expanded. expand_courses courses = Inr expanded))
   \<and> ((\<forall>crs\<in>set before. crs ''code'' \<noteq> None
          \<and> (\<forall>v. crs ''sections'' = Some v \<longrightarrow> (\<exists>n. v = PInt n)))
        \<and> skipped ''code'' \<noteq> None \<and> skipped ''sections'' = Some (PInt n) \<and> n \<le> 0
      \<longrightarrow> expand_courses (before @ skipped # after) = expand_courses (before @ after))"
proof (intro conjI impI)
  assume "\<forall>crs\<in>set courses. crs ''code'' \<noteq> None
        \<and> (\<forall>v. crs ''sections'' = Some v \<longrightarrow> (\<exists>n. v = PInt n))"
  then have "\<forall>crs\<in>set courses. expandable crs"
    using requirement_literal_expandable by blast
  then show "\<exists>expanded. expand_courses courses = Inr expanded"
    by (simp add: expand_courses_def expand_loop_expandable)
next
  assume a: "(\<forall>crs\<in>set before. crs ''code'' \<noteq> None
          \<and> (\<forall>v. crs ''sections'' = Some v \<longrightarrow> (\<exists>n. v = PInt n)))
        \<and> skipped ''code'' \<noteq> None \<and> skipped ''sections'' = Some (PInt n) \<and> n \<le> 0"
  then have b: "\<forall>crs\<in>set before. expandable crs"
    using requirement_literal_expandable by blast
  from a have s: "expandable skipped"
    by (simp add: expandable_def int_sections_def)
  from a have e: "requirement_sections skipped = []"
    by (simp add: requirement_sections_nonpositive)
  show "expand_courses (before @ skipped # after) = expand_courses (before @ after)"
    unfolding expand_courses_def by (rule expand_loop_skip [OF b s e])
qed

text \<open>
  The amended theorem at a list with a zero-section requirement in the middle.
\<close>

theorem expand_courses_returns_witness:
  "expand_courses [course_A, course_zero, course_B] = expand_courses [course_A, course_B]
   \<and> (\<exists>expanded. expand_courses [course_A, course_zero, course_B] = Inr expanded)"
proof -
  have h: "\<forall>crs\<in>set [course_A, course_zero, course_B]. crs ''code'' \<noteq> None
        \<and> (\<forall>v. crs ''sections'' = Some v \<longrightarrow> (\<exists>n. v = PInt n))"
    by (simp add: course_A_def course_zero_def course_B_def)
  have h2: "(\<forall>crs\<in>set [course_A]. crs ''code'' \<noteq> None
          \<and> (\<forall>v. crs ''sections'' = Some v \<longrightarrow> (\<exists>n. v = PInt n)))
        \<and> course_zero ''code'' \<noteq> None \<and> course_zero ''sections'' = Some (PInt 0) \<and> (0::int) \<le> 0"
    by (simp add: course_A_def course_zero_def)
  note t = expand_courses_returns
             [of "[course_A, course_zero, course_B]" "[course_A]" course_zero 0 "[course_B]"]
  from t h have r: "\<exists>expanded. expand_courses [course_A, course_zero, course_B] = Inr expanded"
    by blast
  from t h2 have "expand_courses ([course_A] @ course_zero # [course_B])
                    = expand_courses ([course_A] @ [course_B])"
    by blast
  with r show ?thesis by simp
qed

end
